theory Spec2Isabelle
  imports Main "HOL-Library.Word"
begin

unbundle bit_operations_syntax

section \<open>Data model\<close>

text \<open>
  The helper layer of \<^verbatim>\<open>SQLiteUtils.cpp\<close> forwards to three collaborators: the
  database engine, the prepared-statement wrapper and a file probe. A C \<^verbatim>\<open>int\<close> is a
  32-bit word. A pointer is an optional address, \<open>None\<close> being \<^verbatim>\<open>nullptr\<close>.
\<close>

type_synonym cint = "32 word"
type_synonym handle = "nat option"
type_synonym int_ptr = "nat option"

text \<open>
  Modelled from the spec: the engine's result codes (OK, row-produced, no-more-rows) and
  its open flags (read-write, create). The header \<^verbatim>\<open>sqlite3.h\<close> that declares them is
  not among the sources; the numbers are those of the engine's public header.
\<close>

definition SQLITE_OK :: cint where
  "SQLITE_OK = 0"

definition SQLITE_ROW :: cint where
  "SQLITE_ROW = 100"

definition SQLITE_DONE :: cint where
  "SQLITE_DONE = 101"

definition SQLITE_OPEN_READWRITE :: cint where
  "SQLITE_OPEN_READWRITE = 2"

definition SQLITE_OPEN_CREATE :: cint where
  "SQLITE_OPEN_CREATE = 4"

subsection \<open>Log entries\<close>

datatype log_value = IntValue cint | TextValue string

record log_entry =
  entry_source :: string
  entry_event :: string
  entry_message :: "string option"
  entry_data :: "(string \<times> log_value) list"

definition TAG :: string where
  "TAG = ''SQLiteUtils''"

definition LX :: "string \<Rightarrow> log_entry" where
  "LX ev = \<lparr>entry_source = TAG, entry_event = ev, entry_message = None, entry_data = []\<rparr>"

definition entry_m :: "log_entry \<Rightarrow> string \<Rightarrow> log_entry" where
  "entry_m e msg = e\<lparr>entry_message := Some msg\<rparr>"

definition entry_d :: "log_entry \<Rightarrow> string \<Rightarrow> log_value \<Rightarrow> log_entry" where
  "entry_d e k v = e\<lparr>entry_data := entry_data e @ [(k, v)]\<rparr>"

subsection \<open>Observable events and the system state\<close>

text \<open>
  Every call that leaves the helper layer is recorded, in order, together with the
  arguments it was given. The \<open>world\<close> is the state of the engine and of the file
  system, which the helper never inspects; \<open>mem\<close> holds the integers that output
  pointers refer to.
\<close>

datatype event =
    File_Probed string
  | Engine_Open string cint
  | Engine_Close handle
  | Engine_Exec handle string
  | Engine_Errmsg handle
  | Statement_Created handle string
  | Statement_Stepped
  | Statement_Column_Read cint
  | Statement_Destroyed
  | Error_Logged log_entry

record 'w sys =
  world :: 'w
  mem :: "nat \<Rightarrow> cint"
  trace :: "event list"

text \<open>
  The collaborators are parameters of the model: the file probe behind
  \<^verbatim>\<open>std::ifstream::good\<close>, the engine's open, close, exec and error-message lookup,
  the operations of the statement wrapper, and the integer parser behind
  \<^verbatim>\<open>stringToInt\<close>, which gives \<open>None\<close> when the text is not an integer. The engine
  and the statement wrapper may answer anything and change the world in any way.
\<close>

record ('w, 's) env =
  ifstream_good :: "string \<Rightarrow> 'w \<Rightarrow> bool"
  engine_open :: "string \<Rightarrow> cint \<Rightarrow> 'w \<Rightarrow> (cint \<times> handle) \<times> 'w"
  engine_close :: "handle \<Rightarrow> 'w \<Rightarrow> cint \<times> 'w"
  engine_exec :: "handle \<Rightarrow> string \<Rightarrow> 'w \<Rightarrow> cint \<times> 'w"
  engine_errmsg :: "handle \<Rightarrow> 'w \<Rightarrow> string"
  statement_prepare :: "handle \<Rightarrow> string \<Rightarrow> 'w \<Rightarrow> 's \<times> 'w"
  statement_valid :: "'s \<Rightarrow> bool"
  statement_step :: "'s \<Rightarrow> 'w \<Rightarrow> (bool \<times> 's) \<times> 'w"
  statement_step_result :: "'s \<Rightarrow> cint"
  statement_column_text :: "'s \<Rightarrow> cint \<Rightarrow> 'w \<Rightarrow> string"
  statement_release :: "'s \<Rightarrow> 'w \<Rightarrow> 'w"
  parse_int :: "string \<Rightarrow> cint option"

definition emit :: "event \<Rightarrow> 'w sys \<Rightarrow> 'w sys" where
  "emit e s = s\<lparr>trace := trace s @ [e]\<rparr>"

definition issued :: "'w sys \<Rightarrow> 'w sys \<Rightarrow> event list" where
  \<comment> \<open>the events a run from \<open>s\<close> to \<open>s'\<close> has appended\<close>
  "issued s s' = drop (length (trace s)) (trace s')"

fun is_engine_call :: "event \<Rightarrow> bool" where
  "is_engine_call (Engine_Open _ _) = True"
| "is_engine_call (Engine_Close _) = True"
| "is_engine_call (Engine_Exec _ _) = True"
| "is_engine_call (Engine_Errmsg _) = True"
| "is_engine_call _ = False"

fun is_engine_open :: "event \<Rightarrow> bool" where
  "is_engine_open (Engine_Open _ _) = True"
| "is_engine_open _ = False"

fun is_engine_exec :: "event \<Rightarrow> bool" where
  "is_engine_exec (Engine_Exec _ _) = True"
| "is_engine_exec _ = False"

fun is_statement_call :: "event \<Rightarrow> bool" where
  "is_statement_call (Statement_Created _ _) = True"
| "is_statement_call Statement_Stepped = True"
| "is_statement_call (Statement_Column_Read _) = True"
| "is_statement_call Statement_Destroyed = True"
| "is_statement_call _ = False"

fun opened :: "event \<Rightarrow> (string \<times> cint) option" where
  "opened (Engine_Open p f) = Some (p, f)"
| "opened _ = None"

fun logged :: "event \<Rightarrow> log_entry option" where
  "logged (Error_Logged e) = Some e"
| "logged _ = None"

definition log_tags :: "event list \<Rightarrow> string list" where
  \<comment> \<open>the event names under which the log entries among \<open>evs\<close> were written\<close>
  "log_tags evs = map entry_event (List.map_filter logged evs)"

section \<open>The collaborators as the helper calls them\<close>

text \<open>
  Modelled from the spec: the logging macros \<^verbatim>\<open>ACSDK_ERROR\<close> and \<^verbatim>\<open>LogEntry\<close> of
  \<^verbatim>\<open>AVSCommon/Utils/Logger\<close>, which are not among the sources. An entry is filed
  under this file's \<open>TAG\<close> and an event name, carries an optional message (\<^verbatim>\<open>.m\<close>)
  and key/value pairs (\<^verbatim>\<open>.d\<close>), and logging it appends it to the trace.
\<close>

definition ACSDK_ERROR :: "log_entry \<Rightarrow> 'w sys \<Rightarrow> 'w sys" where
  "ACSDK_ERROR e s = emit (Error_Logged e) s"

definition sqlite3_open_v2 ::
  "('w, 's) env \<Rightarrow> string \<Rightarrow> cint \<Rightarrow> 'w sys \<Rightarrow> (cint \<times> handle) \<times> 'w sys" where
  "sqlite3_open_v2 E filePath flags s =
     (let (r, w) = engine_open E filePath flags (world s)
      in (r, emit (Engine_Open filePath flags) (s\<lparr>world := w\<rparr>)))"

definition sqlite3_close :: "('w, 's) env \<Rightarrow> handle \<Rightarrow> 'w sys \<Rightarrow> cint \<times> 'w sys" where
  "sqlite3_close E dbHandle s =
     (let (rcode, w) = engine_close E dbHandle (world s)
      in (rcode, emit (Engine_Close dbHandle) (s\<lparr>world := w\<rparr>)))"

definition sqlite3_exec ::
  "('w, 's) env \<Rightarrow> handle \<Rightarrow> string \<Rightarrow> 'w sys \<Rightarrow> cint \<times> 'w sys" where
  "sqlite3_exec E dbHandle sqlString s =
     (let (rcode, w) = engine_exec E dbHandle sqlString (world s)
      in (rcode, emit (Engine_Exec dbHandle sqlString) (s\<lparr>world := w\<rparr>)))"

definition sqlite3_errmsg :: "('w, 's) env \<Rightarrow> handle \<Rightarrow> 'w sys \<Rightarrow> string \<times> 'w sys" where
  "sqlite3_errmsg E dbHandle s =
     (engine_errmsg E dbHandle (world s), emit (Engine_Errmsg dbHandle) s)"

text \<open>
  Modelled from the spec: the statement wrapper \<^verbatim>\<open>SQLiteStatement\<close>, whose class is
  not among the sources. It is constructed from a handle and an SQL text and offers
  \<^verbatim>\<open>isValid\<close> (did preparation succeed), \<^verbatim>\<open>step\<close> (advance once; whether advancing
  succeeded), \<^verbatim>\<open>getStepResult\<close> (the engine's code for the last step) and
  \<^verbatim>\<open>getColumnText\<close> (the text of a column, by position). Its destructor runs when
  the local object goes out of scope, on every way out of the helper.
\<close>

definition SQLiteStatement ::
  "('w, 's) env \<Rightarrow> handle \<Rightarrow> string \<Rightarrow> 'w sys \<Rightarrow> 's \<times> 'w sys" where
  "SQLiteStatement E dbHandle sqlString s =
     (let (st, w) = statement_prepare E dbHandle sqlString (world s)
      in (st, emit (Statement_Created dbHandle sqlString) (s\<lparr>world := w\<rparr>)))"

definition isValid :: "('w, 's) env \<Rightarrow> 's \<Rightarrow> bool" where
  "isValid E st = statement_valid E st"

definition step :: "('w, 's) env \<Rightarrow> 's \<Rightarrow> 'w sys \<Rightarrow> (bool \<times> 's) \<times> 'w sys" where
  "step E st s =
     (let (r, w) = statement_step E st (world s)
      in (r, emit Statement_Stepped (s\<lparr>world := w\<rparr>)))"

definition getStepResult :: "('w, 's) env \<Rightarrow> 's \<Rightarrow> cint" where
  "getStepResult E st = statement_step_result E st"

definition getColumnText ::
  "('w, 's) env \<Rightarrow> 's \<Rightarrow> cint \<Rightarrow> 'w sys \<Rightarrow> string \<times> 'w sys" where
  "getColumnText E st pos s =
     (statement_column_text E st pos (world s), emit (Statement_Column_Read pos) s)"

definition destroy :: "('w, 's) env \<Rightarrow> 's \<Rightarrow> 'w sys \<Rightarrow> 'w sys" where
  "destroy E st s = emit Statement_Destroyed (s\<lparr>world := statement_release E st (world s)\<rparr>)"

text \<open>
  Modelled from the spec: \<^verbatim>\<open>stringToInt(str, result)\<close> of
  \<^verbatim>\<open>AVSCommon/Utils/String/StringUtils\<close>, which is not among the sources. It parses
  the text as an integer; on success the value is stored through \<open>result\<close>, on failure,
  or with a null \<open>result\<close>, nothing is stored.
\<close>

definition stringToInt ::
  "('w, 's) env \<Rightarrow> string \<Rightarrow> int_ptr \<Rightarrow> 'w sys \<Rightarrow> bool \<times> 'w sys" where
  "stringToInt E str result s =
     (case result of
        None \<Rightarrow> (False, s)
      | Some a \<Rightarrow>
          (case parse_int E str of
             None \<Rightarrow> (False, s)
           | Some v \<Rightarrow> (True, s\<lparr>mem := (mem s)(a := v)\<rparr>)))"

section \<open>The helper functions\<close>

definition fileExists :: "('w, 's) env \<Rightarrow> string \<Rightarrow> 'w sys \<Rightarrow> bool \<times> 'w sys" where
  "fileExists E filePath s = (ifstream_good E filePath (world s), emit (File_Probed filePath) s)"

definition openSQLiteDatabaseHelper ::
  "('w, 's) env \<Rightarrow> string \<Rightarrow> cint \<Rightarrow> 'w sys \<Rightarrow> handle \<times> 'w sys" where
  "openSQLiteDatabaseHelper E filePath sqliteFlags s0 =
     (let ((rcode, dbHandle), s1) = sqlite3_open_v2 E filePath sqliteFlags s0
      in if rcode \<noteq> SQLITE_OK then
           (let (msg, s2) = sqlite3_errmsg E dbHandle s1;
                s3 = ACSDK_ERROR
                       (entry_d (entry_d (entry_d
                          (entry_m (LX ''openSQLiteDatabaseHelperFailed'') ''Could not open database.'')
                          ''rcode'' (IntValue rcode))
                          ''file path'' (TextValue filePath))
                          ''error message'' (TextValue msg)) s2;
                (ignored, s4) = sqlite3_close E dbHandle s3
            in (None, s4))
         else (dbHandle, s1))"

definition createSQLiteDatabase :: "('w, 's) env \<Rightarrow> string \<Rightarrow> 'w sys \<Rightarrow> handle \<times> 'w sys" where
  "createSQLiteDatabase E filePath s0 =
     (let (found, s1) = fileExists E filePath s0
      in if found then
           (None, ACSDK_ERROR
                    (entry_d (entry_m (LX ''createSQLiteDatabaseFailed'') ''File already exists.'')
                       ''file'' (TextValue filePath)) s1)
         else
           (let flags = SQLITE_OPEN_READWRITE OR SQLITE_OPEN_CREATE;
                (dbHandle, s2) = openSQLiteDatabaseHelper E filePath flags s1
            in if dbHandle = None then
                 (dbHandle, ACSDK_ERROR
                    (entry_m (LX ''createSQLiteDatabaseFailed'') ''Could not create database.'') s2)
               else (dbHandle, s2)))"

definition openSQLiteDatabase :: "('w, 's) env \<Rightarrow> string \<Rightarrow> 'w sys \<Rightarrow> handle \<times> 'w sys" where
  "openSQLiteDatabase E filePath s0 =
     (let (found, s1) = fileExists E filePath s0
      in if \<not> found then
           (None, ACSDK_ERROR
                    (entry_d (entry_m (LX ''openSQLiteDatabaseFailed'') ''File could not be found.'')
                       ''file'' (TextValue filePath)) s1)
         else
           (let flags = SQLITE_OPEN_READWRITE;
                (dbHandle, s2) = openSQLiteDatabaseHelper E filePath flags s1
            in if dbHandle = None then
                 (dbHandle, ACSDK_ERROR
                    (entry_m (LX ''openSQLiteDatabaseFailed'') ''Could not open database.'') s2)
               else (dbHandle, s2)))"

definition closeSQLiteDatabase :: "('w, 's) env \<Rightarrow> handle \<Rightarrow> 'w sys \<Rightarrow> bool \<times> 'w sys" where
  "closeSQLiteDatabase E dbHandle s0 =
     (let s1 = (if dbHandle = None then
                  ACSDK_ERROR (entry_m (LX ''closeSQLiteDatabaseFailed'') ''dbHandle is nullptr.'') s0
                else s0);
          (rcode, s2) = sqlite3_close E dbHandle s1
      in if rcode \<noteq> SQLITE_OK then
           (let (msg, s3) = sqlite3_errmsg E dbHandle s2
            in (False, ACSDK_ERROR
                         (entry_d (entry_d (LX ''closeSQLiteDatabaseFailed'')
                            ''rcode'' (IntValue rcode))
                            ''error message'' (TextValue msg)) s3))
         else (True, s2))"

definition performQuery ::
  "('w, 's) env \<Rightarrow> handle \<Rightarrow> string \<Rightarrow> 'w sys \<Rightarrow> bool \<times> 'w sys" where
  "performQuery E dbHandle sqlString s0 =
     (if dbHandle = None then
        (False, ACSDK_ERROR (entry_m (LX ''performQueryFailed'') ''dbHandle was nullptr.'') s0)
      else
        (let (rcode, s1) = sqlite3_exec E dbHandle sqlString s0
         in if rcode \<noteq> SQLITE_OK then
              (let (msg, s2) = sqlite3_errmsg E dbHandle s1
               in (False, ACSDK_ERROR
                            (entry_d (entry_d
                               (entry_m (LX ''performQueryFailed'') (''Could not execute SQL:'' @ sqlString))
                               ''rcode'' (IntValue rcode))
                               ''error message'' (TextValue msg)) s2))
            else (True, s1)))"

definition getNumberTableRows ::
  "('w, 's) env \<Rightarrow> handle \<Rightarrow> string \<Rightarrow> int_ptr \<Rightarrow> 'w sys \<Rightarrow> bool \<times> 'w sys" where
  "getNumberTableRows E dbHandle tableName numberRows s0 =
     (if dbHandle = None then
        (False, ACSDK_ERROR (entry_m (LX ''getNumberTableRowsFailed'') ''dbHandle was nullptr.'') s0)
      else if numberRows = None then
        (False, ACSDK_ERROR (entry_m (LX ''getNumberTableRowsFailed'') ''dbHandle was nullptr.'') s0)
      else
        (let sqlString = ''SELECT COUNT(*) FROM '' @ tableName @ '';'';
             (statement, s1) = SQLiteStatement E dbHandle sqlString s0
         in if \<not> isValid E statement then
              (False, destroy E statement
                 (ACSDK_ERROR
                    (entry_m (LX ''getNumberTableRowsFailed'') ''Could not create statement.'') s1))
            else
              (let ((stepped, statement'), s2) = step E statement s1
               in if \<not> stepped then
                    (False, destroy E statement'
                       (ACSDK_ERROR
                          (entry_m (LX ''getNumberTableRowsFailed'') ''Could not step to next row.'') s2))
                  else
                    (let RESULT_COLUMN_POSITION = 0;
                         (rowValue, s3) = getColumnText E statement' RESULT_COLUMN_POSITION s2;
                         (parsed, s4) = stringToInt E rowValue numberRows s3
                     in if \<not> parsed then
                          (False, destroy E statement'
                             (ACSDK_ERROR
                                (entry_d (LX ''getNumberTableRowsFailed'')
                                   ''Could not convert string to integer'' (TextValue rowValue)) s4))
                        else (True, destroy E statement' s4)))))"

definition getTableMaxIntValue ::
  "('w, 's) env \<Rightarrow> handle \<Rightarrow> string \<Rightarrow> string \<Rightarrow> int_ptr \<Rightarrow> 'w sys \<Rightarrow> bool \<times> 'w sys" where
  "getTableMaxIntValue E dbHandle tableName columnName maxId s0 =
     (case maxId of
        None \<Rightarrow>
          (False, ACSDK_ERROR (entry_m (LX ''getMaxIdFailed'') ''dbHandle was nullptr.'') s0)
      | Some out \<Rightarrow>
        (let sqlString = ''SELECT '' @ columnName @ '' FROM '' @ tableName @
                         '' ORDER BY '' @ columnName @ '' DESC LIMIT 1;'';
             (statement, s1) = SQLiteStatement E dbHandle sqlString s0
         in if \<not> isValid E statement then
              (False, destroy E statement
                 (ACSDK_ERROR
                    (entry_m (LX ''getTableMaxIntValueFailed'') ''Could not create statement.'') s1))
            else
              (let ((stepped, statement'), s2) = step E statement s1
               in if \<not> stepped then
                    (False, destroy E statement'
                       (ACSDK_ERROR
                          (entry_m (LX ''getTableMaxIntValueFailed'') ''Could not step to next row.'') s2))
                  else
                    (let stepResult = getStepResult E statement'
                     in if stepResult \<noteq> SQLITE_ROW \<and> stepResult \<noteq> SQLITE_DONE then
                          (False, destroy E statement'
                             (ACSDK_ERROR
                                (entry_m (LX ''getTableMaxIntValueFailed'')
                                   ''Step did not evaluate to either row or completion.'') s2))
                        else
                          (let s3 = (if SQLITE_DONE = stepResult
                                     then s2\<lparr>mem := (mem s2)(out := 0)\<rparr> else s2)
                           in if SQLITE_ROW = stepResult then
                                (let RESULT_COLUMN_POSITION = 0;
                                     (rowValue, s4) = getColumnText E statement' RESULT_COLUMN_POSITION s3;
                                     (parsed, s5) = stringToInt E rowValue maxId s4
                                 in if \<not> parsed then
                                      (False, destroy E statement'
                                         (ACSDK_ERROR
                                            (entry_d (LX ''getTableMaxIntValueFailed'')
                                               ''Could not convert string to integer''
                                               (TextValue rowValue)) s5))
                                    else (True, destroy E statement' s5))
                              else (True, destroy E statement' s3))))))"

definition clearTable ::
  "('w, 's) env \<Rightarrow> handle \<Rightarrow> string \<Rightarrow> 'w sys \<Rightarrow> bool \<times> 'w sys" where
  "clearTable E dbHandle tableName s0 =
     (if dbHandle = None then
        (False, ACSDK_ERROR (entry_m (LX ''clearTableFailed'') ''dbHandle was nullptr.'') s0)
      else
        (let sqlString = ''DELETE FROM '' @ tableName @ '';'';
             (statement, s1) = SQLiteStatement E dbHandle sqlString s0
         in if \<not> isValid E statement then
              (False, destroy E statement
                 (ACSDK_ERROR (entry_m (LX ''clearTableFailed'') ''Could not create statement.'') s1))
            else
              (let ((stepped, statement'), s2) = step E statement s1
               in if \<not> stepped then
                    (False, destroy E statement'
                       (ACSDK_ERROR (entry_m (LX ''clearTableFailed'') ''Could not perform step.'') s2))
                  else (True, destroy E statement' s2))))"

section \<open>A small concrete environment\<close>

text \<open>
  A toy engine for running the helpers on concrete inputs. Its world is the list of
  database files that exist. Opening an existing file succeeds; opening a missing one
  succeeds only with the create flag, and then the file exists afterwards; otherwise the
  engine answers 14 (cannot open) and still hands back a handle, which is to be closed.
  Closing always answers OK, also for a null handle.
  The statement wrapper is scripted: whether preparation succeeded, whether the step
  succeeded, the step result and the text of every column.
\<close>

definition boot :: "'w \<Rightarrow> 'w sys" where
  "boot w = \<lparr>world = w, mem = (\<lambda>_. - 1), trace = []\<rparr>"

definition toy_statement ::
  "bool \<Rightarrow> bool \<Rightarrow> cint \<Rightarrow> string \<Rightarrow> (string list, unit) env" where
  "toy_statement valid stepped code txt =
     \<lparr>ifstream_good = (\<lambda>p w. p \<in> set w),
      engine_open = (\<lambda>p f w.
         if p \<in> set w then ((SQLITE_OK, Some 1), w)
         else if f AND SQLITE_OPEN_CREATE \<noteq> 0 then ((SQLITE_OK, Some 1), p # w)
         else ((14, Some 2), w)),
      engine_close = (\<lambda>h w. (SQLITE_OK, w)),
      engine_exec = (\<lambda>h q w. (SQLITE_OK, w)),
      engine_errmsg = (\<lambda>h w. ''unable to open database file''),
      statement_prepare = (\<lambda>h q w. ((), w)),
      statement_valid = (\<lambda>st. valid),
      statement_step = (\<lambda>st w. ((stepped, st), w)),
      statement_step_result = (\<lambda>st. code),
      statement_column_text = (\<lambda>st pos w. txt),
      statement_release = (\<lambda>st w. w),
      parse_int = map_of [(''0'', 0), (''5'', 5), (''42'', 42)]\<rparr>"

definition toy_env :: "(string list, unit) env" where
  "toy_env = toy_statement True True SQLITE_ROW ''5''"

definition broken_env :: "(string list, unit) env" where
  \<comment> \<open>the toy engine on a medium where no database can be opened\<close>
  "broken_env = toy_env\<lparr>engine_open := (\<lambda>p f w. ((14, Some 2), w))\<rparr>"

section \<open>Basic facts\<close>

lemmas code_defs = SQLITE_OK_def SQLITE_ROW_def SQLITE_DONE_def SQLITE_OPEN_READWRITE_def
  SQLITE_OPEN_CREATE_def

lemmas call_defs = ACSDK_ERROR_def emit_def sqlite3_open_v2_def sqlite3_close_def
  sqlite3_exec_def sqlite3_errmsg_def SQLiteStatement_def isValid_def step_def
  getStepResult_def getColumnText_def destroy_def stringToInt_def fileExists_def issued_def

lemmas toy_defs = toy_env_def broken_env_def toy_statement_def boot_def

lemma pair_of_pair: "x = ((fst (fst x), snd (fst x)), snd x)"
  by simp

lemma row_not_done: "SQLITE_ROW \<noteq> SQLITE_DONE"
  by (simp add: code_defs)

text \<open>
  Three of the four helpers that take a handle and build on it test the handle first and
  leave with a log entry only.
\<close>

lemma null_handle_rejected_by_siblings:
  "performQuery E None sqlString s =
     (False, ACSDK_ERROR (entry_m (LX ''performQueryFailed'') ''dbHandle was nullptr.'') s)"
  "getNumberTableRows E None tableName numberRows s =
     (False, ACSDK_ERROR (entry_m (LX ''getNumberTableRowsFailed'') ''dbHandle was nullptr.'') s)"
  "clearTable E None tableName s =
     (False, ACSDK_ERROR (entry_m (LX ''clearTableFailed'') ''dbHandle was nullptr.'') s)"
  by (simp_all add: performQuery_def getNumberTableRows_def clearTable_def)

lemma null_handle_reaches_no_collaborator:
  "filter (\<lambda>e. is_engine_call e \<or> is_statement_call e)
     (issued s (snd (performQuery E None sqlString s))) = []"
  "filter (\<lambda>e. is_engine_call e \<or> is_statement_call e)
     (issued s (snd (getNumberTableRows E None tableName numberRows s))) = []"
  "filter (\<lambda>e. is_engine_call e \<or> is_statement_call e)
     (issued s (snd (clearTable E None tableName s))) = []"
  by (simp_all add: null_handle_rejected_by_siblings ACSDK_ERROR_def emit_def issued_def)

section \<open>Claims\<close>

text \<open>
  C1. For every call to getTableMaxIntValue with a non-null output pointer: when the
  prepared statement is not valid the call fails without stepping it; otherwise the
  statement is stepped exactly once and the outcome is one of: the step fails and the call
  fails; the step succeeds with no-more-rows and the call succeeds, having written 0 to the
  output; the step succeeds with row-produced and the text of column 0 is parsed, the call
  succeeding with the parsed value in the output, or failing when the text does not parse;
  any other step result makes the call fail.
\<close>

theorem getTableMaxIntValue_outcomes:
  assumes prepared: "SQLiteStatement E dbHandle
             (''SELECT '' @ columnName @ '' FROM '' @ tableName @
              '' ORDER BY '' @ columnName @ '' DESC LIMIT 1;'') s = (st, sp)"
    and advanced: "step E st sp = ((stepped, st'), ss)"
    and run: "getTableMaxIntValue E dbHandle tableName columnName (Some out) s = (r, s')"
  shows "(\<not> isValid E st \<longrightarrow>
            \<not> r \<and> filter (\<lambda>e. e = Statement_Stepped) (issued s s') = [])
       \<and> (isValid E st \<longrightarrow>
            (\<not> stepped \<longrightarrow> \<not> r)
          \<and> (stepped \<and> getStepResult E st' = SQLITE_DONE \<longrightarrow> r \<and> mem s' out = 0)
          \<and> (stepped \<and> getStepResult E st' = SQLITE_ROW \<longrightarrow>
               (case parse_int E (fst (getColumnText E st' 0 ss)) of
                  None \<Rightarrow> \<not> r
                | Some v \<Rightarrow> r \<and> mem s' out = v))
          \<and> (stepped \<and> getStepResult E st' \<noteq> SQLITE_ROW
                \<and> getStepResult E st' \<noteq> SQLITE_DONE \<longrightarrow> \<not> r)
          \<and> length (filter (\<lambda>e. e = Statement_Stepped) (issued s s')) = 1)"
  using prepared advanced run row_not_done
  by (auto simp: getTableMaxIntValue_def call_defs Let_def case_prod_beta
        split: option.splits if_splits)

text \<open>
  The outcomes on the toy engine: a statement that could not be prepared, a failed step,
  an empty table, a row holding 5, a row whose text is not a number, and a step result
  that is neither row nor done.
\<close>

theorem getTableMaxIntValue_outcomes_witness:
  "(\<not> fst (getTableMaxIntValue (toy_statement False True SQLITE_ROW ''5'')
             (Some 1) ''alerts'' ''id'' (Some 0) (boot [])))
   \<and> (\<not> fst (getTableMaxIntValue (toy_statement True False SQLITE_ROW ''5'')
             (Some 1) ''alerts'' ''id'' (Some 0) (boot [])))
   \<and> (fst (getTableMaxIntValue (toy_statement True True SQLITE_DONE [])
             (Some 1) ''alerts'' ''id'' (Some 0) (boot []))
      \<and> mem (snd (getTableMaxIntValue (toy_statement True True SQLITE_DONE [])
             (Some 1) ''alerts'' ''id'' (Some 0) (boot []))) 0 = 0)
   \<and> (fst (getTableMaxIntValue (toy_statement True True SQLITE_ROW ''5'')
             (Some 1) ''alerts'' ''id'' (Some 0) (boot []))
      \<and> mem (snd (getTableMaxIntValue (toy_statement True True SQLITE_ROW ''5'')
             (Some 1) ''alerts'' ''id'' (Some 0) (boot []))) 0 = 5)
   \<and> (\<not> fst (getTableMaxIntValue (toy_statement True True SQLITE_ROW ''five'')
             (Some 1) ''alerts'' ''id'' (Some 0) (boot [])))
   \<and> (\<not> fst (getTableMaxIntValue (toy_statement True True 21 [])
             (Some 1) ''alerts'' ''id'' (Some 0) (boot [])))"
proof -
  note run =
    getTableMaxIntValue_outcomes [OF surjective_pairing pair_of_pair surjective_pairing,
      where dbHandle = "Some 1" and tableName = "''alerts''" and columnName = "''id''"
        and s = "boot []" and out = 0]
  show ?thesis
    using run [where E = "toy_statement False True SQLITE_ROW ''5''"]
      run [where E = "toy_statement True False SQLITE_ROW ''5''"]
      run [where E = "toy_statement True True SQLITE_DONE []"]
      run [where E = "toy_statement True True SQLITE_ROW ''5''"]
      run [where E = "toy_statement True True SQLITE_ROW ''five''"]
      run [where E = "toy_statement True True 21 []"]
    by (simp add: toy_defs call_defs code_defs)
qed

text \<open>
  C2. A null handle is rejected by performQuery, getNumberTableRows and clearTable
  (\<open>null_handle_rejected_by_siblings\<close>, \<open>null_handle_reaches_no_collaborator\<close>), but
  not by getTableMaxIntValue, which tests only its output pointer: called with a null
  handle and a non-null output pointer, the first thing it does, whatever the
  environment, is to construct the statement wrapper on the null handle. What it returns
  is then up to the wrapper: on the toy engine, whose wrapper does not look at the handle,
  the call succeeds.
\<close>

theorem getTableMaxIntValue_null_handle_reaches_statement:
  "hd (issued s (snd (getTableMaxIntValue E None ''alerts'' ''id'' (Some 0) s))) =
     Statement_Created None ''SELECT id FROM alerts ORDER BY id DESC LIMIT 1;''
   \<and> fst (getTableMaxIntValue toy_env None ''alerts'' ''id'' (Some 0) (boot []))"
proof
  show "hd (issued s (snd (getTableMaxIntValue E None ''alerts'' ''id'' (Some 0) s))) =
          Statement_Created None ''SELECT id FROM alerts ORDER BY id DESC LIMIT 1;''"
    by (auto simp: getTableMaxIntValue_def call_defs Let_def split: option.splits prod.splits)
  show "fst (getTableMaxIntValue toy_env None ''alerts'' ''id'' (Some 0) (boot []))"
    by (simp add: getTableMaxIntValue_def call_defs toy_defs code_defs Let_def)
qed

text \<open>
  C3. For every call to closeSQLiteDatabase with a null handle, the null-handle error is
  logged and the function goes on: the next event is the engine's close call on the null
  handle, and the result is success exactly when that call answers OK.
\<close>

theorem closeSQLiteDatabase_null_still_closes:
  "take 2 (issued s (snd (closeSQLiteDatabase E None s))) =
     [Error_Logged (entry_m (LX ''closeSQLiteDatabaseFailed'') ''dbHandle is nullptr.''),
      Engine_Close None]
   \<and> fst (closeSQLiteDatabase E None s) = (fst (engine_close E None (world s)) = SQLITE_OK)"
  by (simp add: closeSQLiteDatabase_def call_defs Let_def case_prod_beta)

text \<open>
  On the toy engine, whose close answers OK for a null handle, closing null succeeds.
\<close>

theorem closeSQLiteDatabase_null_still_closes_witness:
  "take 2 (issued (boot []) (snd (closeSQLiteDatabase toy_env None (boot [])))) =
     [Error_Logged (entry_m (LX ''closeSQLiteDatabaseFailed'') ''dbHandle is nullptr.''),
      Engine_Close None]
   \<and> fst (closeSQLiteDatabase toy_env None (boot []))"
  using closeSQLiteDatabase_null_still_closes [of "boot []" toy_env]
  by (simp add: toy_defs)

text \<open>
  C4. For every path at which the existence probe succeeds, createSQLiteDatabase returns
  null, having probed the file and logged that it already exists; the engine's open is
  not called and the world is as it was.
\<close>

theorem createSQLiteDatabase_existing_file:
  assumes "ifstream_good E filePath (world s)"
  shows "fst (createSQLiteDatabase E filePath s) = None
       \<and> issued s (snd (createSQLiteDatabase E filePath s)) =
           [File_Probed filePath,
            Error_Logged
              (entry_d (entry_m (LX ''createSQLiteDatabaseFailed'') ''File already exists.'')
                 ''file'' (TextValue filePath))]
       \<and> filter is_engine_open (issued s (snd (createSQLiteDatabase E filePath s))) = []
       \<and> world (snd (createSQLiteDatabase E filePath s)) = world s"
  using assms by (simp add: createSQLiteDatabase_def call_defs Let_def)

text \<open>
  On the toy engine with \<^verbatim>\<open>alerts.db\<close> in place, create refuses.
\<close>

theorem createSQLiteDatabase_existing_file_witness:
  "ifstream_good toy_env ''alerts.db'' (world (boot [''alerts.db'']))
   \<and> fst (createSQLiteDatabase toy_env ''alerts.db'' (boot [''alerts.db''])) = None
   \<and> filter is_engine_open
        (issued (boot [''alerts.db''])
           (snd (createSQLiteDatabase toy_env ''alerts.db'' (boot [''alerts.db''])))) = []
   \<and> world (snd (createSQLiteDatabase toy_env ''alerts.db'' (boot [''alerts.db''])))
        = [''alerts.db'']"
proof -
  have found: "ifstream_good toy_env ''alerts.db'' (world (boot [''alerts.db'']))"
    by (simp add: toy_defs)
  show ?thesis
    using found createSQLiteDatabase_existing_file [OF found]
    by (simp add: boot_def)
qed

text \<open>
  C5. For every path at which the existence probe fails, openSQLiteDatabase returns null,
  having probed the file and logged that it could not be found; the engine's open is not
  called and the world is as it was.
\<close>

theorem openSQLiteDatabase_missing_file:
  assumes "\<not> ifstream_good E filePath (world s)"
  shows "fst (openSQLiteDatabase E filePath s) = None
       \<and> issued s (snd (openSQLiteDatabase E filePath s)) =
           [File_Probed filePath,
            Error_Logged
              (entry_d (entry_m (LX ''openSQLiteDatabaseFailed'') ''File could not be found.'')
                 ''file'' (TextValue filePath))]
       \<and> filter is_engine_open (issued s (snd (openSQLiteDatabase E filePath s))) = []
       \<and> world (snd (openSQLiteDatabase E filePath s)) = world s"
  using assms by (simp add: openSQLiteDatabase_def call_defs Let_def)

text \<open>
  On the toy engine with no file at all, open refuses.
\<close>

theorem openSQLiteDatabase_missing_file_witness:
  "\<not> ifstream_good toy_env ''alerts.db'' (world (boot []))
   \<and> fst (openSQLiteDatabase toy_env ''alerts.db'' (boot [])) = None
   \<and> filter is_engine_open
        (issued (boot []) (snd (openSQLiteDatabase toy_env ''alerts.db'' (boot [])))) = []
   \<and> world (snd (openSQLiteDatabase toy_env ''alerts.db'' (boot []))) = []"
proof -
  have missing: "\<not> ifstream_good toy_env ''alerts.db'' (world (boot []))"
    by (simp add: toy_defs)
  show ?thesis
    using missing openSQLiteDatabase_missing_file [OF missing]
    by (simp add: boot_def)
qed

text \<open>
  C6. getNumberTableRows returns failure at once, with one log entry and nothing else
  done, if the handle or the output pointer is null. Otherwise it prepares exactly the
  text \<^verbatim>\<open>SELECT COUNT(*) FROM <tableName>;\<close> on the handle, requires the statement to
  be valid and to advance one step, then reads the text of column 0 and parses it into
  the output. A failure to prepare, to step or to parse returns failure. Every failure is
  logged under the one event name \<^verbatim>\<open>getNumberTableRowsFailed\<close>; what tells the three
  stages apart is the entry itself, its message or its data key, not the name it is
  filed under.
\<close>

theorem getNumberTableRows_stages:
  assumes run: "getNumberTableRows E dbHandle tableName numberRows s = (r, s')"
    and prepared: "SQLiteStatement E dbHandle (''SELECT COUNT(*) FROM '' @ tableName @ '';'') s
                     = (st, sp)"
    and advanced: "step E st sp = ((stepped, st'), ss)"
    and column: "getColumnText E st' 0 ss = (rowValue, sc)"
  shows "(dbHandle = None \<or> numberRows = None \<longrightarrow>
            \<not> r
            \<and> issued s s' =
                [Error_Logged (entry_m (LX ''getNumberTableRowsFailed'') ''dbHandle was nullptr.'')])
       \<and> (dbHandle \<noteq> None \<and> numberRows = Some out \<longrightarrow>
            (\<not> isValid E st \<longrightarrow>
               \<not> r
               \<and> issued s s' =
                   [Statement_Created dbHandle (''SELECT COUNT(*) FROM '' @ tableName @ '';''),
                    Error_Logged
                      (entry_m (LX ''getNumberTableRowsFailed'') ''Could not create statement.''),
                    Statement_Destroyed])
          \<and> (isValid E st \<and> \<not> stepped \<longrightarrow>
               \<not> r
               \<and> issued s s' =
                   [Statement_Created dbHandle (''SELECT COUNT(*) FROM '' @ tableName @ '';''),
                    Statement_Stepped,
                    Error_Logged
                      (entry_m (LX ''getNumberTableRowsFailed'') ''Could not step to next row.''),
                    Statement_Destroyed])
          \<and> (isValid E st \<and> stepped \<and> parse_int E rowValue = None \<longrightarrow>
               \<not> r
               \<and> issued s s' =
                   [Statement_Created dbHandle (''SELECT COUNT(*) FROM '' @ tableName @ '';''),
                    Statement_Stepped,
                    Statement_Column_Read 0,
                    Error_Logged
                      (entry_d (LX ''getNumberTableRowsFailed'')
                         ''Could not convert string to integer'' (TextValue rowValue)),
                    Statement_Destroyed])
          \<and> (isValid E st \<and> stepped \<and> parse_int E rowValue = Some v \<longrightarrow>
               r \<and> mem s' out = v
               \<and> issued s s' =
                   [Statement_Created dbHandle (''SELECT COUNT(*) FROM '' @ tableName @ '';''),
                    Statement_Stepped,
                    Statement_Column_Read 0,
                    Statement_Destroyed])
          \<and> (\<not> r \<longrightarrow> log_tags (issued s s') = [''getNumberTableRowsFailed''])
          \<and> distinct
               [entry_m (LX ''getNumberTableRowsFailed'') ''Could not create statement.'',
                entry_m (LX ''getNumberTableRowsFailed'') ''Could not step to next row.'',
                entry_d (LX ''getNumberTableRowsFailed'')
                  ''Could not convert string to integer'' (TextValue rowValue)])"
  using run prepared advanced column
  by (auto simp: getNumberTableRows_def call_defs Let_def case_prod_beta log_tags_def
        LX_def entry_m_def entry_d_def
        split: option.splits if_splits)

text \<open>
  The stages on the toy engine: a null handle, a null output pointer, a statement that
  could not be prepared, a failed step, a count that is not a number, and a count of 5.
\<close>

theorem getNumberTableRows_stages_witness:
  "\<not> fst (getNumberTableRows toy_env None ''alerts'' (Some 0) (boot []))
   \<and> \<not> fst (getNumberTableRows toy_env (Some 1) ''alerts'' None (boot []))
   \<and> \<not> fst (getNumberTableRows (toy_statement False True SQLITE_ROW ''5'')
              (Some 1) ''alerts'' (Some 0) (boot []))
   \<and> \<not> fst (getNumberTableRows (toy_statement True False SQLITE_ROW ''5'')
              (Some 1) ''alerts'' (Some 0) (boot []))
   \<and> \<not> fst (getNumberTableRows (toy_statement True True SQLITE_ROW ''five'')
              (Some 1) ''alerts'' (Some 0) (boot []))
   \<and> fst (getNumberTableRows toy_env (Some 1) ''alerts'' (Some 0) (boot []))
   \<and> mem (snd (getNumberTableRows toy_env (Some 1) ''alerts'' (Some 0) (boot []))) 0 = 5
   \<and> issued (boot []) (snd (getNumberTableRows toy_env (Some 1) ''alerts'' (Some 0) (boot []))) =
        [Statement_Created (Some 1) ''SELECT COUNT(*) FROM alerts;'',
         Statement_Stepped, Statement_Column_Read 0, Statement_Destroyed]"
proof -
  note stages =
    getNumberTableRows_stages [OF surjective_pairing surjective_pairing pair_of_pair
      surjective_pairing, where tableName = "''alerts''" and s = "boot []" and out = 0 and v = 5]
  show ?thesis
    using stages [where E = toy_env and dbHandle = None and numberRows = "Some 0"]
      stages [where E = toy_env and dbHandle = "Some 1" and numberRows = None]
      stages [where E = "toy_statement False True SQLITE_ROW ''5''" and dbHandle = "Some 1"
                and numberRows = "Some 0"]
      stages [where E = "toy_statement True False SQLITE_ROW ''5''" and dbHandle = "Some 1"
                and numberRows = "Some 0"]
      stages [where E = "toy_statement True True SQLITE_ROW ''five''" and dbHandle = "Some 1"
                and numberRows = "Some 0"]
      stages [where E = toy_env and dbHandle = "Some 1" and numberRows = "Some 0"]
    by (simp add: toy_defs call_defs)
qed

text \<open>
  The three stages do not log under distinct names: a failed preparation, a failed step
  and a failed parse all file their entry under \<^verbatim>\<open>getNumberTableRowsFailed\<close>.
\<close>

theorem getNumberTableRows_log_tag_counterexample:
  "\<not> fst (getNumberTableRows (toy_statement False True SQLITE_ROW ''5'')
            (Some 1) ''alerts'' (Some 0) (boot []))
   \<and> \<not> fst (getNumberTableRows (toy_statement True False SQLITE_ROW ''5'')
              (Some 1) ''alerts'' (Some 0) (boot []))
   \<and> \<not> fst (getNumberTableRows (toy_statement True True SQLITE_ROW ''five'')
              (Some 1) ''alerts'' (Some 0) (boot []))
   \<and> log_tags (issued (boot [])
        (snd (getNumberTableRows (toy_statement False True SQLITE_ROW ''5'')
               (Some 1) ''alerts'' (Some 0) (boot []))))
     = log_tags (issued (boot [])
        (snd (getNumberTableRows (toy_statement True False SQLITE_ROW ''5'')
               (Some 1) ''alerts'' (Some 0) (boot []))))
   \<and> log_tags (issued (boot [])
        (snd (getNumberTableRows (toy_statement True False SQLITE_ROW ''5'')
               (Some 1) ''alerts'' (Some 0) (boot []))))
     = log_tags (issued (boot [])
        (snd (getNumberTableRows (toy_statement True True SQLITE_ROW ''five'')
               (Some 1) ''alerts'' (Some 0) (boot []))))"
  by (simp add: getNumberTableRows_def call_defs toy_defs Let_def log_tags_def
        LX_def entry_m_def entry_d_def)

text \<open>
  C7. For every SQL text, performQuery with a null handle returns failure, logs the null
  handle and calls the engine not at all; with a non-null handle it calls the engine's
  exec once, on that handle and text, and returns success exactly when exec answers OK.
\<close>

theorem performQuery_null_and_result:
  "fst (performQuery E None sqlString s) = False
   \<and> issued s (snd (performQuery E None sqlString s)) =
        [Error_Logged (entry_m (LX ''performQueryFailed'') ''dbHandle was nullptr.'')]
   \<and> filter is_engine_call (issued s (snd (performQuery E None sqlString s))) = []
   \<and> world (snd (performQuery E None sqlString s)) = world s
   \<and> fst (performQuery E (Some h) sqlString s) =
        (fst (engine_exec E (Some h) sqlString (world s)) = SQLITE_OK)
   \<and> filter is_engine_exec (issued s (snd (performQuery E (Some h) sqlString s))) =
        [Engine_Exec (Some h) sqlString]"
  by (simp add: performQuery_def call_defs Let_def case_prod_beta)

text \<open>
  On the toy engine: a null handle fails with no engine call, a live handle succeeds.
\<close>

theorem performQuery_null_and_result_witness:
  "\<not> fst (performQuery toy_env None ''DELETE FROM alerts;'' (boot []))
   \<and> filter is_engine_call
        (issued (boot []) (snd (performQuery toy_env None ''DELETE FROM alerts;'' (boot [])))) = []
   \<and> fst (performQuery toy_env (Some 1) ''DELETE FROM alerts;'' (boot []))
   \<and> filter is_engine_exec
        (issued (boot []) (snd (performQuery toy_env (Some 1) ''DELETE FROM alerts;'' (boot []))))
        = [Engine_Exec (Some 1) ''DELETE FROM alerts;'']"
  using performQuery_null_and_result [of toy_env "''DELETE FROM alerts;''" "boot []" 1]
  by (simp add: toy_defs code_defs)

text \<open>
  C8. Whenever the engine's open answers a code other than OK, the open helper logs the
  code, the path and the engine's error message, then closes the handle the engine gave
  back and returns null; createSQLiteDatabase and openSQLiteDatabase therefore return
  null when the engine's open fails for their flags.
\<close>

theorem openSQLiteDatabaseHelper_open_failure:
  "(engine_open E filePath sqliteFlags (world s) = ((rcode, dbHandle), w)
      \<and> rcode \<noteq> SQLITE_OK \<longrightarrow>
      fst (openSQLiteDatabaseHelper E filePath sqliteFlags s) = None
      \<and> issued s (snd (openSQLiteDatabaseHelper E filePath sqliteFlags s)) =
          [Engine_Open filePath sqliteFlags,
           Engine_Errmsg dbHandle,
           Error_Logged
             (entry_d (entry_d (entry_d
                (entry_m (LX ''openSQLiteDatabaseHelperFailed'') ''Could not open database.'')
                ''rcode'' (IntValue rcode))
                ''file path'' (TextValue filePath))
                ''error message'' (TextValue (engine_errmsg E dbHandle w))),
           Engine_Close dbHandle])
   \<and> (fst (fst (engine_open E filePath (SQLITE_OPEN_READWRITE OR SQLITE_OPEN_CREATE) (world s)))
         \<noteq> SQLITE_OK \<longrightarrow>
      fst (createSQLiteDatabase E filePath s) = None)
   \<and> (fst (fst (engine_open E filePath SQLITE_OPEN_READWRITE (world s))) \<noteq> SQLITE_OK \<longrightarrow>
      fst (openSQLiteDatabase E filePath s) = None)"
  by (simp add: openSQLiteDatabaseHelper_def createSQLiteDatabase_def openSQLiteDatabase_def
        call_defs Let_def case_prod_beta)

text \<open>
  On the engine that cannot open anything: the helper, create on a missing file and open
  on an existing file all return null, and the handle the engine gave back is closed.
\<close>

theorem openSQLiteDatabaseHelper_open_failure_witness:
  "engine_open broken_env ''alerts.db'' SQLITE_OPEN_READWRITE (world (boot [])) = ((14, Some 2), [])
   \<and> 14 \<noteq> SQLITE_OK
   \<and> fst (openSQLiteDatabaseHelper broken_env ''alerts.db'' SQLITE_OPEN_READWRITE (boot [])) = None
   \<and> issued (boot [])
        (snd (openSQLiteDatabaseHelper broken_env ''alerts.db'' SQLITE_OPEN_READWRITE (boot []))) =
        [Engine_Open ''alerts.db'' SQLITE_OPEN_READWRITE,
         Engine_Errmsg (Some 2),
         Error_Logged
           (entry_d (entry_d (entry_d
              (entry_m (LX ''openSQLiteDatabaseHelperFailed'') ''Could not open database.'')
              ''rcode'' (IntValue 14))
              ''file path'' (TextValue ''alerts.db''))
              ''error message'' (TextValue ''unable to open database file'')),
         Engine_Close (Some 2)]
   \<and> \<not> ifstream_good broken_env ''alerts.db'' (world (boot []))
   \<and> fst (createSQLiteDatabase broken_env ''alerts.db'' (boot [])) = None
   \<and> ifstream_good broken_env ''alerts.db'' (world (boot [''alerts.db'']))
   \<and> fst (openSQLiteDatabase broken_env ''alerts.db'' (boot [''alerts.db''])) = None"
  using openSQLiteDatabaseHelper_open_failure
          [where E = broken_env and filePath = "''alerts.db''" and s = "boot []"
             and sqliteFlags = SQLITE_OPEN_READWRITE and rcode = 14 and dbHandle = "Some 2"
             and w = "[]"]
        openSQLiteDatabaseHelper_open_failure
          [where E = broken_env and filePath = "''alerts.db''" and s = "boot [''alerts.db'']"
             and sqliteFlags = SQLITE_OPEN_READWRITE and rcode = 14 and dbHandle = "Some 2"
             and w = "[''alerts.db'']"]
  by (simp add: toy_defs code_defs)

text \<open>
  C9. The only engine open that createSQLiteDatabase issues, when the file is missing, is
  on its path with the flags read-write OR create; the only one openSQLiteDatabase issues,
  when the file is there, is on its path with the read-write flag alone, in which the
  create bit is not set.
\<close>

theorem engine_open_flags:
  "List.map_filter opened (issued s (snd (createSQLiteDatabase E filePath s))) =
     (if ifstream_good E filePath (world s) then []
      else [(filePath, SQLITE_OPEN_READWRITE OR SQLITE_OPEN_CREATE)])
   \<and> List.map_filter opened (issued s (snd (openSQLiteDatabase E filePath s))) =
     (if ifstream_good E filePath (world s) then [(filePath, SQLITE_OPEN_READWRITE)] else [])
   \<and> SQLITE_OPEN_READWRITE AND SQLITE_OPEN_CREATE = 0
   \<and> (SQLITE_OPEN_READWRITE OR SQLITE_OPEN_CREATE) AND SQLITE_OPEN_CREATE = SQLITE_OPEN_CREATE"
  by (simp add: openSQLiteDatabaseHelper_def createSQLiteDatabase_def openSQLiteDatabase_def
        call_defs Let_def case_prod_beta, simp add: code_defs)

text \<open>
  On the toy engine: create on a missing file opens with flags 6 and the file exists
  afterwards; open on an existing file opens with flags 2.
\<close>

theorem engine_open_flags_witness:
  "List.map_filter opened (issued (boot []) (snd (createSQLiteDatabase toy_env ''alerts.db'' (boot []))))
     = [(''alerts.db'', 6)]
   \<and> world (snd (createSQLiteDatabase toy_env ''alerts.db'' (boot []))) = [''alerts.db'']
   \<and> List.map_filter opened
        (issued (boot [''alerts.db''])
           (snd (openSQLiteDatabase toy_env ''alerts.db'' (boot [''alerts.db''])))) = [(''alerts.db'', 2)]
   \<and> world (snd (openSQLiteDatabase toy_env ''alerts.db'' (boot [''alerts.db'']))) = [''alerts.db'']"
proof -
  have w1: "world (snd (createSQLiteDatabase toy_env ''alerts.db'' (boot []))) = [''alerts.db'']"
    by (simp add: createSQLiteDatabase_def openSQLiteDatabaseHelper_def call_defs toy_defs
          code_defs Let_def)
  have w2: "world (snd (openSQLiteDatabase toy_env ''alerts.db'' (boot [''alerts.db''])))
              = [''alerts.db'']"
    by (simp add: openSQLiteDatabase_def openSQLiteDatabaseHelper_def call_defs toy_defs
          code_defs Let_def)
  show ?thesis
    using w1 w2 engine_open_flags [of "boot []" toy_env "''alerts.db''"]
      engine_open_flags [of "boot [''alerts.db'']" toy_env "''alerts.db''"]
    by (simp add: toy_defs code_defs)
qed

text \<open>
  C10. closeSQLiteDatabase returns success exactly when the engine's close answers OK,
  whatever the handle; so with an engine that answers OK to closing a null handle,
  closing null returns true, the null-handle error having been logged first.
\<close>

theorem closeSQLiteDatabase_result:
  "fst (closeSQLiteDatabase E dbHandle s) =
     (fst (engine_close E dbHandle (world s)) = SQLITE_OK)
   \<and> (fst (engine_close E None (world s)) = SQLITE_OK \<longrightarrow>
        fst (closeSQLiteDatabase E None s)
        \<and> issued s (snd (closeSQLiteDatabase E None s)) =
            [Error_Logged (entry_m (LX ''closeSQLiteDatabaseFailed'') ''dbHandle is nullptr.''),
             Engine_Close None])"
  by (simp add: closeSQLiteDatabase_def call_defs Let_def case_prod_beta)

text \<open>
  The toy engine answers OK to closing a null handle, and closing null returns true.
\<close>

theorem closeSQLiteDatabase_result_witness:
  "fst (engine_close toy_env None (world (boot []))) = SQLITE_OK
   \<and> fst (closeSQLiteDatabase toy_env None (boot []))
   \<and> issued (boot []) (snd (closeSQLiteDatabase toy_env None (boot []))) =
        [Error_Logged (entry_m (LX ''closeSQLiteDatabaseFailed'') ''dbHandle is nullptr.''),
         Engine_Close None]"
  using closeSQLiteDatabase_result [of toy_env None "boot []"]
  by (simp add: toy_defs)

end
